theory Spec2Isabelle
  imports Complex_Main
begin

section \<open>Python values used by the calculator\<close>

text \<open>
  The notebook \<^verbatim>\<open>crypto_calculator.py\<close> has two functions: \<^verbatim>\<open>get_current_rate\<close>, which
  asks the Alpha Vantage API for an exchange rate, and the Dash callback
  \<^verbatim>\<open>update_conversion\<close>, which turns the rate and the entered amount into the text shown.
  Strings are byte strings (UTF-8, as the source file declares); text handed to
  \<^verbatim>\<open>float()\<close> is read by its ASCII grammar.
\<close>

subsection \<open>Exceptions\<close>

datatype error =
    RequestException
  | JSONDecodeError
  | KeyError
  | TypeError
  | ValueError
  | OverflowError

subsection \<open>Floats: IEEE 754 binary64\<close>

text \<open>
  A float is a sign bit with a magnitude, an infinity with a sign bit, or NaN. The sign bit
  is \<open>True\<close> for a negative value. Every operation rounds its exact result to the
  nearest binary64 value, ties to the even significand.
\<close>

datatype double = Finite bool rat | Infinity bool | NaN

definition pw :: "int \<Rightarrow> int \<Rightarrow> rat" where
  \<comment> \<open>\<open>b\<close> to the power \<open>e\<close>, for an exponent of either sign\<close>
  "pw b e = (if 0 \<le> e then of_int (b ^ nat e) else 1 / of_int (b ^ nat (- e)))"

function ndigits :: "int \<Rightarrow> int \<Rightarrow> int" where
  \<comment> \<open>the number of digits of \<open>n\<close> written to base \<open>b\<close>\<close>
  "ndigits b n = (if b < 2 \<or> n < 1 then 0 else 1 + ndigits b (n div b))"
  by pat_completeness auto
termination
  by (relation "measure (\<lambda>(b, n). nat n)") (auto simp: int_div_less_self)

declare ndigits.simps [simp del]

definition ilog :: "int \<Rightarrow> rat \<Rightarrow> int" where
  \<comment> \<open>the floor of the logarithm to base \<open>b\<close> of a positive rational\<close>
  "ilog b x = (if 1 \<le> x then ndigits b \<lfloor>x\<rfloor> - 1 else - ndigits b (\<lceil>1 / x\<rceil> - 1))"

definition round_half_even :: "rat \<Rightarrow> int" where
  "round_half_even x =
     (let f = \<lfloor>x\<rfloor>; d = x - of_int f
      in if d < 1 / 2 then f
         else if 1 / 2 < d then f + 1
         else if even f then f else f + 1)"

definition nearest_double :: "bool \<Rightarrow> rat \<Rightarrow> double" where
  \<comment> \<open>the binary64 value nearest to the magnitude \<open>x\<close>: 53 significant bits, exponents from
      -1022 (below that the spacing stays \<open>2^-1074\<close>), infinity from \<open>2^1024\<close> on\<close>
  "nearest_double s x =
     (if x = 0 then Finite s 0
      else let e = max (ilog 2 x) (- 1022);
               q = pw 2 (e - 52);
               r = of_int (round_half_even (x / q)) * q
           in if pw 2 1024 \<le> r then Infinity s else Finite s r)"


fun fmul :: "double \<Rightarrow> double \<Rightarrow> double" where
  "fmul NaN _ = NaN"
| "fmul _ NaN = NaN"
| "fmul (Infinity s) (Infinity t) = Infinity (s \<noteq> t)"
| "fmul (Infinity s) (Finite t m) = (if m = 0 then NaN else Infinity (s \<noteq> t))"
| "fmul (Finite s m) (Infinity t) = (if m = 0 then NaN else Infinity (s \<noteq> t))"
| "fmul (Finite s m) (Finite t n) = nearest_double (s \<noteq> t) (m * n)"

definition float_of_int :: "int \<Rightarrow> error + double" where
  \<comment> \<open>\<^verbatim>\<open>float(n)\<close> for an int, also the conversion in \<^verbatim>\<open>float * int\<close>\<close>
  "float_of_int n =
     (case nearest_double (n < 0) (of_int \<bar>n\<bar>) of
        Infinity _ \<Rightarrow> Inl OverflowError
      | d \<Rightarrow> Inr d)"

fun is_finite :: "double \<Rightarrow> bool" where
  "is_finite (Finite _ _) = True"
| "is_finite _ = False"



subsection \<open>Reading a float from text\<close>

definition is_space :: "char \<Rightarrow> bool" where
  "is_space c = (c \<in> set [CHR '' '', CHR 0x09, CHR 0x0A, CHR 0x0B, CHR 0x0C, CHR 0x0D])"

definition is_digit :: "char \<Rightarrow> bool" where
  "is_digit c = (c \<in> set ''0123456789'')"

definition digit_val :: "char \<Rightarrow> int" where
  "digit_val c = of_char c - 48"

definition strip :: "string \<Rightarrow> string" where
  "strip s = rev (dropWhile is_space (rev (dropWhile is_space s)))"

fun underscores :: "char \<Rightarrow> string \<Rightarrow> string option" where
  \<comment> \<open>an underscore is dropped when it stands between two digits and refused anywhere
      else; the first argument is the character before\<close>
  "underscores prev [] = (if prev = CHR ''_'' then None else Some [])"
| "underscores prev (c # cs) =
     (if c = CHR ''_'' then (if is_digit prev then underscores c cs else None)
      else if prev = CHR ''_'' \<and> \<not> is_digit c then None
      else map_option (Cons c) (underscores c cs))"

definition lower :: "char \<Rightarrow> char" where
  "lower c = (case map_of (zip ''ABCDEFGHIJKLMNOPQRSTUVWXYZ'' ''abcdefghijklmnopqrstuvwxyz'') c of
                None \<Rightarrow> c | Some l \<Rightarrow> l)"

definition int_of_digits :: "string \<Rightarrow> int" where
  "int_of_digits ds = foldl (\<lambda>n c. 10 * n + digit_val c) 0 ds"

definition exponent :: "string \<Rightarrow> int option" where
  \<comment> \<open>what follows the significand: nothing, or \<^verbatim>\<open>e\<close>, an optional sign and digits\<close>
  "exponent s =
     (case s of
        [] \<Rightarrow> Some 0
      | c # t \<Rightarrow>
          if c = CHR ''e'' \<or> c = CHR ''E'' then
            (let (neg, ds) = (case t of
                    d # u \<Rightarrow> if d = CHR ''-'' then (True, u)
                             else if d = CHR ''+'' then (False, u) else (False, t)
                  | [] \<Rightarrow> (False, t))
             in if ds \<noteq> [] \<and> list_all is_digit ds
                then Some (if neg then - int_of_digits ds else int_of_digits ds)
                else None)
          else None)"

definition decimal :: "bool \<Rightarrow> string \<Rightarrow> double option" where
  \<comment> \<open>digits, an optional point and digits, an optional exponent; one digit at least\<close>
  "decimal s r =
     (let ip = takeWhile is_digit r; r1 = dropWhile is_digit r;
          (fp, r2) = (case r1 of
              c # t \<Rightarrow> if c = CHR ''.'' then (takeWhile is_digit t, dropWhile is_digit t)
                       else ([], r1)
            | [] \<Rightarrow> ([], r1))
      in if ip = [] \<and> fp = [] then None
         else case exponent r2 of
                None \<Rightarrow> None
              | Some ex \<Rightarrow>
                  Some (nearest_double s
                    (of_int (int_of_digits (ip @ fp)) * pw 10 (ex - int (length fp)))))"

definition float_of_str :: "string \<Rightarrow> double option" where
  \<comment> \<open>\<^verbatim>\<open>float(s)\<close> for a str; \<open>None\<close> is ValueError\<close>
  "float_of_str s =
     (case underscores (CHR 0x00) (strip s) of
        None \<Rightarrow> None
      | Some t \<Rightarrow>
          (let (neg, r) = (case t of
                  c # u \<Rightarrow> if c = CHR ''-'' then (True, u)
                           else if c = CHR ''+'' then (False, u) else (False, t)
                | [] \<Rightarrow> (False, t));
               w = map lower r
           in if w = ''inf'' \<or> w = ''infinity'' then Some (Infinity neg)
              else if w = ''nan'' then Some NaN
              else decimal neg r))"

subsection \<open>Writing numbers\<close>

definition digit_char :: "int \<Rightarrow> char" where
  "digit_char d = ''0123456789'' ! nat d"

function dec :: "int \<Rightarrow> string" where
  \<comment> \<open>the decimal digits of a number that is not negative\<close>
  "dec n = (if n < 10 then [digit_char n] else dec (n div 10) @ [digit_char (n mod 10)])"
  by pat_completeness auto
termination
  by (relation "measure nat") auto

declare dec.simps [simp del]

function commas :: "string \<Rightarrow> string" where
  \<comment> \<open>the thousands separator: a comma before every group of three digits, counted from
      the right\<close>
  "commas ds =
     (if length ds \<le> 3 then ds
      else commas (take (length ds - 3) ds) @ '','' @ drop (length ds - 3) ds)"
  by pat_completeness auto
termination
  by (relation "measure length") auto

declare commas.simps [simp del]

definition sign_str :: "bool \<Rightarrow> string" where
  "sign_str s = (if s then ''-'' else [])"

definition format_int :: "int \<Rightarrow> string" where
  \<comment> \<open>\<^verbatim>\<open>format(n, ',')\<close> for an int\<close>
  "format_int n = sign_str (n < 0) @ commas (dec \<bar>n\<bar>)"

definition format_fixed2 :: "double \<Rightarrow> string" where
  \<comment> \<open>\<^verbatim>\<open>format(x, ',.2f')\<close>: the exact value rounded to hundredths, ties to even\<close>
  "format_fixed2 x =
     (case x of
        NaN \<Rightarrow> ''nan''
      | Infinity s \<Rightarrow> sign_str s @ ''inf''
      | Finite s m \<Rightarrow>
          (let n = round_half_even (m * 100)
           in sign_str s @ commas (dec (n div 100)) @ ''.'' @
              [digit_char (n div 10 mod 10), digit_char (n mod 10)]))"

definition candidate :: "rat \<Rightarrow> int \<Rightarrow> (int \<times> int) option" where
  \<comment> \<open>a decimal \<open>d * 10^e\<close> of \<open>k\<close> digits that reads back as the float of magnitude
      \<open>x\<close>: of the two decimals around \<open>x\<close>, the nearer one that does\<close>
  "candidate x k =
     (let e = ilog 10 x - k + 1;
          y = x / pw 10 e;
          lo = \<lfloor>y\<rfloor>;
          hi = lo + 1;
          ok_lo = (nearest_double False (of_int lo * pw 10 e) = Finite False x);
          ok_hi = (nearest_double False (of_int hi * pw 10 e) = Finite False x)
      in if ok_lo \<and> (\<not> ok_hi \<or> y - of_int lo \<le> of_int hi - y) then Some (lo, e)
         else if ok_hi then Some (hi, e)
         else None)"

function shortest :: "rat \<Rightarrow> int \<Rightarrow> int \<times> int" where
  \<comment> \<open>the shortest decimal that reads back as the float, tried from \<open>k\<close> digits on;
      seventeen digits always do\<close>
  "shortest x k =
     (if 17 \<le> k then (round_half_even (x / pw 10 (ilog 10 x - 16)), ilog 10 x - 16)
      else case candidate x k of
             Some r \<Rightarrow> r
           | None \<Rightarrow> shortest x (k + 1))"
  by pat_completeness auto
termination
  by (relation "measure (\<lambda>(x, k). nat (17 - k))") auto

declare shortest.simps [simp del]

function trim_zeros :: "int \<Rightarrow> int \<Rightarrow> int \<times> int" where
  "trim_zeros d e = (if d \<noteq> 0 \<and> d mod 10 = 0 then trim_zeros (d div 10) (e + 1) else (d, e))"
  by pat_completeness auto
termination
  by (relation "measure (\<lambda>(d, e). nat \<bar>d\<bar>)") auto

declare trim_zeros.simps [simp del]

definition format_float :: "double \<Rightarrow> string" where
  \<comment> \<open>\<^verbatim>\<open>format(x, ',')\<close> for a float: the digits of \<^verbatim>\<open>repr\<close>, in exponent form from
      \<open>1e16\<close> on and below \<open>1e-4\<close>, the integer part with thousands separators\<close>
  "format_float x =
     (case x of
        NaN \<Rightarrow> ''nan''
      | Infinity s \<Rightarrow> sign_str s @ ''inf''
      | Finite s m \<Rightarrow>
          sign_str s @
          (if m = 0 then ''0.0''
           else let (d, e) = (case shortest m 1 of (d, e) \<Rightarrow> trim_zeros d e);
                    ds = dec d;
                    n = int (length ds);
                    decpt = n + e
                in if 16 < decpt \<or> decpt \<le> - 4 then
                     take 1 ds @ (if 1 < n then ''.'' @ drop 1 ds else []) @ ''e'' @
                     (if decpt - 1 < 0 then ''-'' else ''+'') @
                     (if \<bar>decpt - 1\<bar> < 10 then ''0'' else []) @ dec \<bar>decpt - 1\<bar>
                   else if decpt \<le> 0 then
                     ''0.'' @ replicate (nat (- decpt)) (CHR ''0'') @ ds
                   else if n \<le> decpt then
                     commas (ds @ replicate (nat (decpt - n)) (CHR ''0'')) @ ''.0''
                   else commas (take (nat decpt) ds) @ ''.'' @ drop (nat decpt) ds))"

section \<open>The notebook\<close>

subsection \<open>JSON documents and the two built-ins applied to them\<close>

text \<open>
  \<^verbatim>\<open>requests.get(url).json()\<close> yields what \<^verbatim>\<open>json.loads\<close> builds: \<^verbatim>\<open>None\<close>, a bool,
  an int, a float, a str, a list or a dict with str keys. A dict is an association list
  read with \<open>map_of\<close>.
\<close>

datatype json =
    JNull
  | JBool bool
  | JInt int
  | JFloat double
  | JStr string
  | JArr "json list"
  | JObj "(string \<times> json) list"

fun getitem :: "json \<Rightarrow> string \<Rightarrow> error + json" where
  \<comment> \<open>\<^verbatim>\<open>data[key]\<close> with a str key: only a dict holding the key answers\<close>
  "getitem (JObj kvs) key = (case map_of kvs key of None \<Rightarrow> Inl KeyError | Some v \<Rightarrow> Inr v)"
| "getitem _ key = Inl TypeError"

fun py_float :: "json \<Rightarrow> error + double" where
  \<comment> \<open>\<^verbatim>\<open>float(v)\<close>\<close>
  "py_float (JStr s) = (case float_of_str s of None \<Rightarrow> Inl ValueError | Some d \<Rightarrow> Inr d)"
| "py_float (JInt n) = float_of_int n"
| "py_float (JFloat d) = Inr d"
| "py_float (JBool b) = Inr (Finite False (if b then 1 else 0))"
| "py_float _ = Inl TypeError"

subsection \<open>The network\<close>

text \<open>
  A request either fails (\<^verbatim>\<open>requests.get\<close> raises) or is answered with a status code and
  a body; the body is \<open>None\<close> when it is not valid JSON (\<^verbatim>\<open>.json()\<close> raises). The
  network gives the answer to the \<open>n\<close>-th request sent, so the same URL may be answered
  differently each time. The requests sent so far are kept in a list, the one piece of
  state.
\<close>

datatype reply = Failed | Response nat "json option"

type_synonym network = "nat \<Rightarrow> string \<Rightarrow> reply"

subsection \<open>\<^verbatim>\<open>get_current_rate\<close>\<close>

definition my_key :: string where
  "my_key = ''GQYCH20FNCG9NCR1''"

definition url :: "string \<Rightarrow> string \<Rightarrow> string \<Rightarrow> string" where
  "url coin currency apikey =
     ''https://www.alphavantage.co/query?function=CURRENCY_EXCHANGE_RATE&from_currency='' @ coin @
     ''&to_currency='' @ currency @ ''&apikey='' @ apikey"

definition exchange_rate :: "json \<Rightarrow> error + double" where
  \<comment> \<open>the body of the \<^verbatim>\<open>try\<close>\<close>
  "exchange_rate data =
     (case getitem data ''Realtime Currency Exchange Rate'' of
        Inl e \<Rightarrow> Inl e
      | Inr inner \<Rightarrow>
          (case getitem inner ''5. Exchange Rate'' of
             Inl e \<Rightarrow> Inl e
           | Inr v \<Rightarrow> py_float v))"

definition get_current_rate ::
  "network \<Rightarrow> string \<Rightarrow> string \<Rightarrow> string \<Rightarrow> string list \<Rightarrow> (error + double option) \<times> string list"
where
  \<comment> \<open>the request and its decoding stand before the \<^verbatim>\<open>try\<close>: what they raise leaves the
      function; the bare \<^verbatim>\<open>except\<close> turns whatever the \<^verbatim>\<open>try\<close> raises into \<^verbatim>\<open>None\<close>\<close>
  "get_current_rate net coin currency apikey sent =
     (let u = url coin currency apikey;
          sent' = sent @ [u]
      in case net (length sent) u of
           Failed \<Rightarrow> (Inl RequestException, sent')
         | Response status body \<Rightarrow>
             (case body of
                None \<Rightarrow> (Inl JSONDecodeError, sent')
              | Some data \<Rightarrow>
                  (Inr (case exchange_rate data of Inl e \<Rightarrow> None | Inr rate \<Rightarrow> Some rate),
                   sent')))"

subsection \<open>\<^verbatim>\<open>update_conversion\<close>\<close>

text \<open>
  The amount comes from a number input: an int, a float, or \<^verbatim>\<open>None\<close> when the field is
  empty. The callback returns a str or an \<^verbatim>\<open>html.H4\<close> component.
\<close>

datatype number = PyInt int | PyFloat double

datatype children = Str string | H4 string

definition symbol :: "string \<rightharpoonup> string" where
  \<comment> \<open>the dollar sign, the euro sign (U+20AC) and the pound sign (U+00A3)\<close>
  "symbol = map_of
     [(''USD'', ''$''),
      (''EUR'', [CHR 0xE2, CHR 0x82, CHR 0xAC]),
      (''GBP'', [CHR 0xC2, CHR 0xA3])]"

definition mul :: "double \<Rightarrow> number \<Rightarrow> error + double" where
  \<comment> \<open>\<^verbatim>\<open>rate*amount\<close>: an int amount is converted to a float first\<close>
  "mul rate amount =
     (case amount of
        PyInt n \<Rightarrow> (case float_of_int n of Inl e \<Rightarrow> Inl e | Inr a \<Rightarrow> Inr (fmul rate a))
      | PyFloat a \<Rightarrow> Inr (fmul rate a))"

definition format_amount :: "number \<Rightarrow> string" where
  \<comment> \<open>\<^verbatim>\<open>{amount:,}\<close>\<close>
  "format_amount amount =
     (case amount of PyInt n \<Rightarrow> format_int n | PyFloat a \<Rightarrow> format_float a)"

definition convert :: "string \<Rightarrow> string \<Rightarrow> number \<Rightarrow> double option \<Rightarrow> error + children" where
  \<comment> \<open>what the callback does with the rate once it has it (the inner \<^verbatim>\<open>if\<close>); the
      f-string formats the amount, then looks the symbol up, then formats the product\<close>
  "convert coin currency amount rate =
     (case rate of
        None \<Rightarrow> Inr (Str ''Data not available'')
      | Some r \<Rightarrow>
          (case mul r amount of
             Inl e \<Rightarrow> Inl e
           | Inr conversion \<Rightarrow>
               (case symbol currency of
                  None \<Rightarrow> Inl KeyError
                | Some sy \<Rightarrow>
                    Inr (H4 (format_amount amount @ '' '' @ coin @ '' = '' @ sy @
                             format_fixed2 conversion)))))"

definition update_conversion ::
  "network \<Rightarrow> string \<Rightarrow> string \<Rightarrow> number option \<Rightarrow> string list \<Rightarrow> (error + children) \<times> string list"
where
  "update_conversion net coin currency amount sent =
     (case amount of
        None \<Rightarrow> (Inr (Str []), sent)
      | Some a \<Rightarrow>
          (case get_current_rate net coin currency my_key sent of
             (Inl e, sent') \<Rightarrow> (Inl e, sent')
           | (Inr rate, sent') \<Rightarrow> (convert coin currency a rate, sent')))"

section \<open>Vocabulary of the properties\<close>





text \<open>
  Answers of the API used as concrete inputs: a body with the rate field, the body sent for
  an unknown currency, and networks that always give one answer, that cannot be reached,
  that answer with something that is not JSON, and that quote a new rate at every request.
\<close>

definition rate_body :: "json \<Rightarrow> json" where
  "rate_body v =
     JObj [(''Realtime Currency Exchange Rate'',
            JObj [(''1. From_Currency Code'', JStr ''BTC''),
                  (''3. To_Currency Code'', JStr ''USD''),
                  (''5. Exchange Rate'', v),
                  (''7. Time Zone'', JStr ''UTC'')])]"

definition error_message :: json where
  "error_message = JObj [(''Error Message'', JStr ''Invalid API call.'')]"

definition answering :: "json \<Rightarrow> network" where
  "answering data n u = Response 200 (Some data)"

definition unreachable :: network where
  "unreachable n u = Failed"


definition ticking :: network where
  "ticking n u = Response 200 (Some (rate_body (JInt (int n + 1))))"

section \<open>Properties of the float arithmetic and of the formatting\<close>





















section \<open>Properties of the two functions\<close>

lemma get_current_rate_sent:
  "snd (get_current_rate net coin currency apikey sent) = sent @ [url coin currency apikey]"
  by (simp add: get_current_rate_def Let_def split: reply.splits option.splits)


lemma update_conversion_Some:
  "update_conversion net coin currency (Some a) sent =
     (case fst (get_current_rate net coin currency my_key sent) of
        Inl e \<Rightarrow> Inl e
      | Inr rate \<Rightarrow> convert coin currency a rate,
      sent @ [url coin currency my_key])"
proof -
  obtain res sent' where g: "get_current_rate net coin currency my_key sent = (res, sent')"
    by (cases "get_current_rate net coin currency my_key sent")
  with get_current_rate_sent [of net coin currency my_key sent]
  have "sent' = sent @ [url coin currency my_key]" by simp
  with g show ?thesis by (simp add: update_conversion_def split: sum.splits)
qed

lemma dom_symbol: "dom symbol = {''USD'', ''EUR'', ''GBP''}"
  by (auto simp: symbol_def split: if_splits)


subsection \<open>The two scenarios of the specification, end to end\<close>

lemma float_65000_12:
  "float_of_str ''65000.12'' = Some (Finite False (8933548468354417 / 137438953472))"
  by code_simp

lemma example_btc_usd:
  "update_conversion (answering (rate_body (JStr ''65000.12''))) ''BTC'' ''USD'' (Some (PyInt 1)) [] =
     (Inr (H4 ''1 BTC = $65,000.12''), [url ''BTC'' ''USD'' my_key])"
  by code_simp

lemma example_eth_eur:
  "update_conversion (answering (rate_body (JStr ''3000.00''))) ''ETH'' ''EUR''
       (Some (PyFloat (Finite False (5 / 2)))) [] =
     (Inr (H4 (''2.5 ETH = '' @ [CHR 0xE2, CHR 0x82, CHR 0xAC] @ ''7,500.00'')),
      [url ''ETH'' ''EUR'' my_key])"
  by code_simp

section \<open>The claims\<close>

subsection \<open>C1: what \<^verbatim>\<open>get_current_rate\<close> does when the lookup fails\<close>




subsection \<open>C2: the value and the text of a conversion\<close>




subsection \<open>C3: the sign of a returned rate\<close>




subsection \<open>C4: no amount, no output\<close>

text \<open>
  Claim C4: when the amount is absent the callback returns the empty string, whatever the
  network would have answered; the empty string is not the message shown for a missing
  rate, and the branch that handles a present amount never returns it.
\<close>

theorem absent_amount_empty:
  "fst (update_conversion net coin currency None sent) = Inr (Str []) \<and>
   Str [] \<noteq> Str ''Data not available'' \<and>
   convert coin currency amount rate \<noteq> Inr (Str [])"
  by (simp add: update_conversion_def convert_def split: option.splits sum.splits)

theorem absent_amount_empty_witness:
  "fst (update_conversion unreachable ''BTC'' ''USD'' None []) = Inr (Str []) \<and>
   fst (update_conversion (answering (rate_body (JStr ''65000.12''))) ''BTC'' ''USD'' None []) = Inr (Str [])"
  using absent_amount_empty [of unreachable "''BTC''" "''USD''" "[]"]
    absent_amount_empty [of "answering (rate_body (JStr ''65000.12''))" "''BTC''" "''USD''" "[]"]
  by simp

subsection \<open>C5: the message for a missing rate\<close>

text \<open>
  Claim C5: when the amount is present and \<^verbatim>\<open>get_current_rate\<close> returns \<^verbatim>\<open>None\<close>, the
  callback returns the fixed text \<^verbatim>\<open>Data not available\<close>, for every amount and every
  currency, supported or not.
\<close>

theorem unavailable_message:
  assumes "fst (get_current_rate net coin currency my_key sent) = Inr None"
  shows "fst (update_conversion net coin currency (Some amount) sent) = Inr (Str ''Data not available'') \<and>
         convert coin currency amount None = Inr (Str ''Data not available'')"
  using assms by (simp add: update_conversion_Some convert_def)

theorem unavailable_message_witness:
  "fst (update_conversion (answering error_message) ''BTC'' ''NOK'' (Some (PyInt 1)) [])
     = Inr (Str ''Data not available'')"
proof -
  have "fst (get_current_rate (answering error_message) ''BTC'' ''NOK'' my_key []) = Inr None"
    by (simp add: get_current_rate_def answering_def error_message_def exchange_rate_def)
  from unavailable_message [OF this] show ?thesis by simp
qed

subsection \<open>C6: the conversion as a function\<close>

text \<open>
  Claim C6 says that the conversion is a pure and total function of the rate and the amount
  alone. The text also holds the coin code and the currency's symbol, so equal rates and
  amounts give different results for different coins; and for a currency without a symbol
  the branch raises \<^verbatim>\<open>KeyError\<close> instead of returning.
\<close>

theorem conversion_depends_on_coin_and_currency:
  "convert ''BTC'' ''USD'' (PyInt 1) (Some (Finite False 1)) = Inr (H4 ''1 BTC = $1.00'') \<and>
   convert ''ETH'' ''USD'' (PyInt 1) (Some (Finite False 1)) = Inr (H4 ''1 ETH = $1.00'') \<and>
   convert ''BTC'' ''NOK'' (PyInt 1) (Some (Finite False 1)) = Inl KeyError"
  by code_simp

text \<open>
  Claim C6, amended: once the rate is fetched, the callback sends no further request, and
  its result is a function of the rate, the amount, the coin and the currency: two runs
  that fetch equal rates, against any two networks, return equal results for the same
  amount, coin and currency. The branch returns a result rather than raising when the rate
  is \<^verbatim>\<open>None\<close>, and when the currency is USD, EUR or GBP and the product \<^verbatim>\<open>rate*amount\<close>
  does not raise.
\<close>

theorem conversion_step:
  "snd (update_conversion net coin currency (Some a) sent) =
     snd (get_current_rate net coin currency my_key sent) \<and>
   (fst (get_current_rate net coin currency my_key sent) = Inr rate \<and>
    fst (get_current_rate net' coin currency my_key sent') = Inr rate \<longrightarrow>
      fst (update_conversion net coin currency (Some a) sent) = convert coin currency a rate \<and>
      fst (update_conversion net' coin currency (Some a) sent') = convert coin currency a rate) \<and>
   (\<exists>d. convert coin currency a None = Inr d) \<and>
   (currency \<in> {''USD'', ''EUR'', ''GBP''} \<and> \<not> isl (mul r a) \<longrightarrow>
      (\<exists>d. convert coin currency a (Some r) = Inr d))"
proof -
  have "\<exists>d. convert coin currency a (Some r) = Inr d"
    if "currency \<in> {''USD'', ''EUR'', ''GBP''}" "\<not> isl (mul r a)"
  proof -
    from that(1) obtain sy where "symbol currency = Some sy"
      using dom_symbol by blast
    moreover from that(2) obtain c where "mul r a = Inr c" by (cases "mul r a") simp_all
    ultimately show ?thesis by (simp add: convert_def)
  qed
  then show ?thesis
    by (simp add: update_conversion_Some get_current_rate_sent convert_def)
qed

theorem conversion_step_witness:
  "fst (update_conversion (answering (rate_body (JInt 3000))) ''ETH'' ''EUR'' (Some (PyInt 2)) []) =
     convert ''ETH'' ''EUR'' (PyInt 2) (Some (Finite False 3000)) \<and>
   fst (update_conversion ticking ''ETH'' ''EUR'' (Some (PyInt 2)) (replicate 2999 [])) =
     convert ''ETH'' ''EUR'' (PyInt 2) (Some (Finite False 3000))"
proof -
  have a: "fst (get_current_rate (answering (rate_body (JInt 3000))) ''ETH'' ''EUR'' my_key []) =
      Inr (Some (Finite False 3000))"
    by code_simp
  have b: "fst (get_current_rate ticking ''ETH'' ''EUR'' my_key (replicate 2999 [])) =
      Inr (Some (Finite False 3000))"
    by (simp add: get_current_rate_def ticking_def) code_simp
  from conversion_step [of "answering (rate_body (JInt 3000))" "''ETH''" "''EUR''"
      "PyInt 2" "[]" "Some (Finite False 3000)" ticking "replicate 2999 []"] a b
  show ?thesis by simp
qed

subsection \<open>C7: one request for each call\<close>



text \<open>
  Against a network that quotes a new rate at every request, two calls in a row with the
  same arguments return different rates.
\<close>

lemma fresh_answer_each_call:
  "fst (get_current_rate ticking ''BTC'' ''USD'' my_key []) = Inr (Some (Finite False 1)) \<and>
   fst (get_current_rate ticking ''BTC'' ''USD'' my_key [url ''BTC'' ''USD'' my_key]) =
     Inr (Some (Finite False 2))"
  by code_simp

subsection \<open>C8: the URL requested\<close>

text \<open>
  Claim C8: the one request of \<^verbatim>\<open>get_current_rate\<close> goes to the fixed endpoint with
  \<^verbatim>\<open>function=CURRENCY_EXCHANGE_RATE\<close> and the coin, the currency and the key as the
  \<^verbatim>\<open>from_currency\<close>, \<^verbatim>\<open>to_currency\<close> and \<^verbatim>\<open>apikey\<close> parameters, in this order and as
  they are; the callback passes the key of the notebook.
\<close>

theorem request_url:
  "snd (get_current_rate net coin currency apikey sent) =
     sent @ [''https://www.alphavantage.co/query?function=CURRENCY_EXCHANGE_RATE&from_currency='' @
             coin @ ''&to_currency='' @ currency @ ''&apikey='' @ apikey] \<and>
   snd (update_conversion net coin currency (Some a) sent) =
     sent @ [''https://www.alphavantage.co/query?function=CURRENCY_EXCHANGE_RATE&from_currency='' @
             coin @ ''&to_currency='' @ currency @ ''&apikey=GQYCH20FNCG9NCR1'']"
  by (simp add: update_conversion_Some get_current_rate_sent url_def my_key_def)

theorem request_url_witness:
  "snd (get_current_rate unreachable ''BTC'' ''USD'' ''demo'' []) =
     [''https://www.alphavantage.co/query?function=CURRENCY_EXCHANGE_RATE&from_currency=BTC&to_currency=USD&apikey=demo'']"
  using request_url [of unreachable "''BTC''" "''USD''" "''demo''" "[]"] by simp

subsection \<open>C9: no request without an amount\<close>

text \<open>
  Claim C9: when the amount is absent the callback returns the empty string before it calls
  \<^verbatim>\<open>get_current_rate\<close>, so the list of requests is unchanged; with an amount it is not.
\<close>

theorem absent_amount_no_request:
  "update_conversion net coin currency None sent = (Inr (Str []), sent) \<and>
   snd (update_conversion net coin currency (Some a) sent) \<noteq> sent"
  by (simp add: update_conversion_Some) (simp add: update_conversion_def)

theorem absent_amount_no_request_witness:
  "update_conversion ticking ''BTC'' ''USD'' None [] = (Inr (Str []), [])"
  using absent_amount_no_request [of ticking "''BTC''" "''USD''" "[]"] by simp

subsection \<open>C10: the currencies that have a symbol\<close>

text \<open>
  Claim C10: the symbol dict has exactly the keys USD, EUR and GBP. For each of them the
  lookup succeeds; for any other currency with a present rate the lookup has no entry and
  the branch raises: \<^verbatim>\<open>KeyError\<close>, unless the product raised before it.
\<close>

theorem symbol_lookup:
  "dom symbol = {''USD'', ''EUR'', ''GBP''} \<and>
   (currency \<in> {''USD'', ''EUR'', ''GBP''} \<longrightarrow> (\<exists>sy. symbol currency = Some sy)) \<and>
   (currency \<notin> {''USD'', ''EUR'', ''GBP''} \<longrightarrow>
      symbol currency = None \<and>
      isl (convert coin currency amount (Some rate)) \<and>
      (\<not> isl (mul rate amount) \<longrightarrow> convert coin currency amount (Some rate) = Inl KeyError))"
proof -
  have "symbol currency = None" if "currency \<notin> {''USD'', ''EUR'', ''GBP''}"
    using that dom_symbol by blast
  moreover have "\<exists>sy. symbol currency = Some sy" if "currency \<in> {''USD'', ''EUR'', ''GBP''}"
    using that dom_symbol by blast
  ultimately show ?thesis
    by (auto simp: dom_symbol convert_def split: sum.splits)
qed

theorem symbol_lookup_witness:
  "symbol ''NOK'' = None \<and>
   convert ''BTC'' ''NOK'' (PyInt 1) (Some (Finite False 10)) = Inl KeyError \<and>
   symbol ''GBP'' \<noteq> None"
proof -
  have "\<not> isl (mul (Finite False 10) (PyInt 1))" by code_simp
  with symbol_lookup [of "''NOK''" "''BTC''" "PyInt 1" "Finite False 10"]
    symbol_lookup [of "''GBP''"]
  show ?thesis by auto
qed

end
